theory Spec2Isabelle
  imports Main "HOL-Library.Sublist" "HOL-Library.Char_ord" "HOL-Library.List_Lexorder"
    "HOL-Library.Multiset"
begin

section \<open>Byte buffers, text and the file system\<close>

text \<open>
  A Python \<open>bytes\<close> value is a list of 8-bit characters. A Python \<open>str\<close> is a list of
  Unicode code points, so that \<open>len\<close> counts code points; \<open>str_of\<close> writes an ASCII
  literal as such a list.
\<close>

type_synonym bytes = "char list"
type_synonym pystr = "nat list"
type_synonym path = string

definition str_of :: "string \<Rightarrow> pystr" where
  "str_of s = map of_char s"

text \<open>\<open>str.encode()\<close>: UTF-8; a surrogate code point raises \<open>UnicodeEncodeError\<close>.\<close>

definition utf8_char :: "nat \<Rightarrow> bytes option" where
  "utf8_char n =
     (if n < 128 then Some [char_of n]
      else if n < 2048 then Some [char_of (192 + n div 64), char_of (128 + n mod 64)]
      else if 55296 \<le> n \<and> n < 57344 then None
      else if n < 65536 then
        Some [char_of (224 + n div 4096), char_of (128 + (n div 64) mod 64),
              char_of (128 + n mod 64)]
      else if n < 1114112 then
        Some [char_of (240 + n div 262144), char_of (128 + (n div 4096) mod 64),
              char_of (128 + (n div 64) mod 64), char_of (128 + n mod 64)]
      else None)"

fun encode :: "pystr \<Rightarrow> bytes option" where
  "encode [] = Some []"
| "encode (c # cs) =
     (case utf8_char c of
        None \<Rightarrow> None
      | Some b \<Rightarrow> (case encode cs of None \<Rightarrow> None | Some bs \<Rightarrow> Some (b @ bs)))"

text \<open>
  The file system maps a path to what is stored there: a regular file with its bytes, or
  a directory. \<open>Path.exists()\<close> is membership in the domain; opening a directory or a
  missing path raises.
\<close>

datatype node = File bytes | Dir

type_synonym fs = "path \<rightharpoonup> node"

definition exists :: "fs \<Rightarrow> path \<Rightarrow> bool" where
  "exists st p = (st p \<noteq> None)"

definition read_bytes :: "fs \<Rightarrow> path \<Rightarrow> bytes option" where
  "read_bytes st p = (case st p of Some (File b) \<Rightarrow> Some b | _ \<Rightarrow> None)"

definition write_bytes :: "fs \<Rightarrow> path \<Rightarrow> bytes \<Rightarrow> fs option" where
  "write_bytes st p b = (case st p of Some Dir \<Rightarrow> None | _ \<Rightarrow> Some (st(p \<mapsto> File b)))"

section \<open>Python's \<open>bytes.replace\<close> and \<open>in\<close>\<close>

text \<open>
  \<open>content.replace(search, repl)\<close> scans left to right and replaces every non-overlapping
  occurrence. With an empty search pattern it inserts the replacement before every byte
  and at the end.
\<close>

function replace_scan :: "bytes \<Rightarrow> bytes \<Rightarrow> bytes \<Rightarrow> bytes" where
  "replace_scan s r [] = []"
| "replace_scan s r (x # xs) =
     (if s \<noteq> [] \<and> prefix s (x # xs)
      then r @ replace_scan s r (drop (length s) (x # xs))
      else x # replace_scan s r xs)"
  by pat_completeness auto
termination
  by (relation "measure (\<lambda>(s, r, xs). length xs)") (auto simp: Suc_le_eq)

definition py_replace :: "bytes \<Rightarrow> bytes \<Rightarrow> bytes \<Rightarrow> bytes" where
  "py_replace s r xs =
     (if s = [] then concat (map (\<lambda>x. r @ [x]) xs) @ r else replace_scan s r xs)"

fun py_in :: "bytes \<Rightarrow> bytes \<Rightarrow> bool" where
  "py_in s [] = (s = [])"
| "py_in s (x # xs) = (prefix s (x # xs) \<or> py_in s xs)"

section \<open>\<open>ModernPatcher\<close>: domain normalisation and fixed-length replace\<close>

text \<open>
  \<open>ModernPatcher._validate_domain\<close> (modern_patchers.py). For a domain that is not 10
  characters long the method first calls \<open>self.logger.warning\<close>; when the attribute
  \<open>logger\<close> has not been assigned yet, that call raises \<open>AttributeError\<close>. The first
  argument says whether \<open>self.logger\<close> exists.
\<close>

datatype init_error = AttributeError

definition validate_domain :: "bool \<Rightarrow> pystr \<Rightarrow> init_error + pystr" where
  "validate_domain has_logger domain =
     (if length domain \<noteq> 10 then
        (if \<not> has_logger then Inl AttributeError
         else if length domain < 10
         then Inr (domain @ replicate (10 - length domain) (of_char CHR ''.''))
         else if length domain > 10 then Inr (take 10 domain)
         else Inr domain)
      else Inr domain)"

text \<open>
  \<open>ModernPatcher.__init__\<close>, as far as the domain goes: \<open>self.domain =
  self._validate_domain(domain)\<close> runs before \<open>self.logger\<close> is assigned, and this is
  the only call of the method. The result is the \<open>domain\<close> attribute of the new object,
  or the exception that ends the construction.
\<close>

definition modern_patcher_init :: "pystr \<Rightarrow> init_error + pystr" where
  "modern_patcher_init domain = validate_domain False domain"

text \<open>
  \<open>ModernPatcher.replace_in_binary\<close> (modern_patchers.py). The arguments are
  \<open>Union[str, bytes]\<close>; a \<open>str\<close> is encoded first. The function returns \<open>False\<close> on each
  failure; the model names the branch that produced it. Any exception inside the body
  (encoding, opening or writing the file) is caught and also gives \<open>False\<close>.
\<close>

datatype pattern = PStr pystr | PBytes bytes

datatype replace_error = LengthMismatch | PatternNotFound | Raised

fun to_bytes :: "pattern \<Rightarrow> bytes option" where
  "to_bytes (PStr s) = encode s"
| "to_bytes (PBytes b) = Some b"

definition replace_in_binary :: "fs \<Rightarrow> path \<Rightarrow> pattern \<Rightarrow> pattern \<Rightarrow> (replace_error + unit) \<times> fs" where
  "replace_in_binary st file_path search repl =
     (case to_bytes search of
        None \<Rightarrow> (Inl Raised, st)
      | Some s \<Rightarrow>
     (case to_bytes repl of
        None \<Rightarrow> (Inl Raised, st)
      | Some r \<Rightarrow>
        if length s \<noteq> length r then (Inl LengthMismatch, st)
        else (case read_bytes st file_path of
                None \<Rightarrow> (Inl Raised, st)
              | Some content \<Rightarrow>
                  if \<not> py_in s content then (Inl PatternNotFound, st)
                  else (case write_bytes st file_path (py_replace s r content) of
                          None \<Rightarrow> (Inl Raised, st)
                        | Some st' \<Rightarrow> (Inr (), st')))))"

section \<open>Occurrences of a pattern\<close>

text \<open>
  Specification-side functions, used to state what a replacement does: \<open>join_with s gs l\<close>
  is the buffer made of the gaps \<open>gs\<close>, each followed by \<open>s\<close>, and the tail \<open>l\<close>;
  \<open>occ_split s xs\<close> cuts \<open>xs\<close> at the occurrences of \<open>s\<close> found scanning from the left
  (Python's \<open>xs.split(s)\<close>, the last piece kept apart).
\<close>

fun join_with :: "bytes \<Rightarrow> bytes list \<Rightarrow> bytes \<Rightarrow> bytes" where
  "join_with s [] l = l"
| "join_with s (g # gs) l = g @ s @ join_with s gs l"

function occ_split :: "bytes \<Rightarrow> bytes \<Rightarrow> bytes list \<times> bytes" where
  "occ_split s [] = ([], [])"
| "occ_split s (x # xs) =
     (if s \<noteq> [] \<and> prefix s (x # xs)
      then (case occ_split s (drop (length s) (x # xs)) of (gs, l) \<Rightarrow> ([] # gs, l))
      else (case occ_split s xs of
              ([], l) \<Rightarrow> ([], x # l)
            | (g # gs, l) \<Rightarrow> ((x # g) # gs, l)))"
  by pat_completeness auto
termination
  by (relation "measure (\<lambda>(s, xs). length xs)") (auto simp: Suc_le_eq)

section \<open>Configuration (config.py)\<close>

datatype ClientType = PLAYER | STUDIO | RCC_SERVICE

datatype PatchType =
  WEBSITE | PUBLIC_KEY | BLOCKING | INVALID_REQUEST | TRUST_CHECK | RATNET_KEY | HTML_SERVICE

record PatchConfig =
  client_path :: path
  website_domain :: pystr
  version_year :: int
  client_type :: ClientType
  patches :: "PatchType set"
  rbxsigtools_path :: path
  x64dbg_path :: path

section \<open>What the patchers take from the platform\<close>

text \<open>
  The patchers call the standard library and external programs. Those are parameters of
  the model: path arithmetic of \<open>pathlib\<close>, the text codec of files opened in text mode,
  the XML library that rewrites the \<open>BaseUrl\<close> element of an existing settings
  document, the key generator and the creation of a temporary script file. Each returns
  \<open>None\<close> where the Python call raises.
\<close>

record platform =
  parent_dir :: "path \<Rightarrow> path"
  join_path :: "path \<Rightarrow> string \<Rightarrow> path"
  text_encode :: "pystr \<Rightarrow> bytes option"
  text_decode :: "bytes \<Rightarrow> pystr option"
  xml_set_base_url :: "bytes \<Rightarrow> pystr \<Rightarrow> bytes option"
  run_keygen :: "path \<Rightarrow> fs \<Rightarrow> (int \<times> fs) option"
  write_temp_script :: "path \<Rightarrow> fs \<Rightarrow> fs option"

section \<open>\<open>BasePatcher\<close> and \<open>ModernPatcher\<close>: backups\<close>

text \<open>
  \<open>client_path.with_suffix(f"{client_path.suffix}.backup")\<close> appends \<open>.backup\<close> to the
  path. \<open>shutil.copy2\<close> onto a path that does not exist copies a regular file and raises
  on anything else.
\<close>

definition backup_path_of :: "path \<Rightarrow> path" where
  "backup_path_of p = p @ ''.backup''"

definition copy2 :: "fs \<Rightarrow> path \<Rightarrow> path \<Rightarrow> fs option" where
  "copy2 st src dst = (case st src of Some (File b) \<Rightarrow> Some (st(dst \<mapsto> File b)) | _ \<Rightarrow> None)"

text \<open>\<open>BasePatcher.backup_client\<close> (patchers/base_patcher.py): \<open>None\<close> when it fails.\<close>

definition backup_client :: "fs \<Rightarrow> path \<Rightarrow> path option \<times> fs" where
  "backup_client st p =
     (if \<not> exists st p then (None, st)
      else let backup_path = backup_path_of p in
        if \<not> exists st backup_path then
          (case copy2 st p backup_path of
             None \<Rightarrow> (None, st)
           | Some st' \<Rightarrow> (Some backup_path, st'))
        else (Some backup_path, st))"

text \<open>
  \<open>ModernPatcher.create_backup\<close> (modern_patchers.py): raises \<open>FileNotFoundError\<close> for a
  missing file and lets a failure of the copy propagate.
\<close>

datatype backup_error = FileNotFoundError | CopyError

definition create_backup :: "fs \<Rightarrow> path \<Rightarrow> (backup_error + path) \<times> fs" where
  "create_backup st file_path =
     (if \<not> exists st file_path then (Inl FileNotFoundError, st)
      else let backup_path = backup_path_of file_path in
        if \<not> exists st backup_path then
          (case copy2 st file_path backup_path of
             None \<Rightarrow> (Inl CopyError, st)
           | Some st' \<Rightarrow> (Inr backup_path, st'))
        else (Inr backup_path, st))"

section \<open>\<open>WebsitePatcher\<close> (patchers/website_patcher.py)\<close>

definition website_validate :: "PatchConfig \<Rightarrow> fs \<Rightarrow> bool" where
  "website_validate cfg st =
     (if \<not> exists st (client_path cfg) then False
      else if length (website_domain cfg) \<noteq> 10 then False
      else True)"

definition app_settings_text :: "pystr \<Rightarrow> pystr" where
  "app_settings_text domain =
     str_of (''<?xml version='' @ [CHR 0x22] @ ''1.0'' @ [CHR 0x22] @ '' encoding='' @
             [CHR 0x22] @ ''UTF-8'' @ [CHR 0x22] @ ''?>'' @ [CHR 0x0A] @
             ''<Settings>'' @ [CHR 0x0A] @
             ''<ContentFolder>content</ContentFolder>'' @ [CHR 0x0A] @
             ''<BaseUrl>http://www.'') @ domain @
     str_of (''</BaseUrl>'' @ [CHR 0x0A] @ ''</Settings>'' @ [CHR 0x0A])"

text \<open>
  \<open>_update_app_settings\<close>: a missing settings file is created (a failure there
  propagates); an existing one is rewritten inside its own \<open>try\<close>, so a failure there
  leaves the file as it was.
\<close>

definition update_app_settings :: "platform \<Rightarrow> PatchConfig \<Rightarrow> fs \<Rightarrow> fs option" where
  "update_app_settings env cfg st =
     (let app_settings_path = join_path env (parent_dir env (client_path cfg)) ''AppSettings.xml'' in
      if \<not> exists st app_settings_path then
        (case text_encode env (app_settings_text (website_domain cfg)) of
           None \<Rightarrow> None
         | Some b \<Rightarrow> write_bytes st app_settings_path b)
      else
        (case read_bytes st app_settings_path of
           None \<Rightarrow> Some st
         | Some old \<Rightarrow>
             (case xml_set_base_url env old (str_of ''http://www.'' @ website_domain cfg) of
                None \<Rightarrow> Some st
              | Some new \<Rightarrow>
                  (case write_bytes st app_settings_path new of
                     None \<Rightarrow> Some st
                   | Some st' \<Rightarrow> Some st'))))"

definition website_apply :: "platform \<Rightarrow> PatchConfig \<Rightarrow> fs \<Rightarrow> bool \<times> fs" where
  "website_apply env cfg st =
     (if \<not> website_validate cfg st then (False, st)
      else
        (case backup_client st (client_path cfg) of
           (None, st1) \<Rightarrow> (False, st1)
         | (Some _, st1) \<Rightarrow>
        (case read_bytes st1 (client_path cfg) of
           None \<Rightarrow> (False, st1)
         | Some content \<Rightarrow>
        (case encode (website_domain cfg) of
           None \<Rightarrow> (False, st1)
         | Some d \<Rightarrow>
        (case write_bytes st1 (client_path cfg) (py_replace ''roblox.com'' d content) of
           None \<Rightarrow> (False, st1)
         | Some st2 \<Rightarrow>
        (case update_app_settings env cfg st2 of
           None \<Rightarrow> (False, st2)
         | Some st3 \<Rightarrow> (True, st3)))))))"

section \<open>\<open>PublicKeyPatcher\<close> (patchers/public_key_patcher.py)\<close>

definition publickey_validate :: "platform \<Rightarrow> PatchConfig \<Rightarrow> fs \<Rightarrow> bool" where
  "publickey_validate env cfg st =
     (if \<not> exists st (client_path cfg) then False
      else if rbxsigtools_path cfg = [] then False
      else if \<not> exists st (rbxsigtools_path cfg) then False
      else if \<not> exists st (join_path env (rbxsigtools_path cfg) ''KeyGenerator.exe'') then False
      else True)"

text \<open>The byte class \<open>[A-Za-z0-9+/=]\<close> of the key pattern.\<close>

definition key_char :: "char \<Rightarrow> bool" where
  "key_char c =
     ((CHR ''A'' \<le> c \<and> c \<le> CHR ''Z'') \<or> (CHR ''a'' \<le> c \<and> c \<le> CHR ''z'') \<or>
      (CHR ''0'' \<le> c \<and> c \<le> CHR ''9'') \<or> c = CHR ''+'' \<or> c = CHR ''/'' \<or> c = CHR ''='')"

text \<open>
  \<open>re.compile(b'BGIAA[A-Za-z0-9+/=]+').findall(content)\<close>: a match starts where the
  prefix is followed by at least one byte of the class, takes the longest run of such
  bytes, and the scan goes on after the match.
\<close>

definition key_match_at :: "bytes \<Rightarrow> bytes option" where
  "key_match_at xs =
     (if prefix ''BGIAA'' xs \<and> takeWhile key_char (drop 5 xs) \<noteq> []
      then Some (''BGIAA'' @ takeWhile key_char (drop 5 xs))
      else None)"

function key_findall :: "bytes \<Rightarrow> bytes list" where
  "key_findall [] = []"
| "key_findall (x # xs) =
     (case key_match_at (x # xs) of
        Some m \<Rightarrow> m # key_findall (drop (length m) (x # xs))
      | None \<Rightarrow> key_findall xs)"
  by pat_completeness auto
termination
  by (relation "measure length") (auto simp: key_match_at_def split: if_splits)

text \<open>The loop \<open>for old_key in matches: content = content.replace(old_key, new_key)\<close>.\<close>

fun replace_keys :: "bytes \<Rightarrow> bytes \<Rightarrow> bytes list \<Rightarrow> bytes" where
  "replace_keys new_key content [] = content"
| "replace_keys new_key content (old_key # matches) =
     replace_keys new_key (py_replace old_key new_key content) matches"

text \<open>\<open>str.strip()\<close> removes the characters for which \<open>str.isspace()\<close> holds.\<close>

definition isspace :: "nat \<Rightarrow> bool" where
  "isspace c =
     ((9 \<le> c \<and> c \<le> 13) \<or> (28 \<le> c \<and> c \<le> 32) \<or> c = 133 \<or> c = 160 \<or> c = 5760 \<or>
      (8192 \<le> c \<and> c \<le> 8202) \<or> c = 8232 \<or> c = 8233 \<or> c = 8239 \<or> c = 8287 \<or> c = 12288)"

definition strip :: "pystr \<Rightarrow> pystr" where
  "strip s = rev (dropWhile isspace (rev (dropWhile isspace s)))"

definition publickey_apply :: "platform \<Rightarrow> PatchConfig \<Rightarrow> fs \<Rightarrow> bool \<times> fs" where
  "publickey_apply env cfg st =
     (if \<not> publickey_validate env cfg st then (False, st)
      else
        (case backup_client st (client_path cfg) of
           (None, st1) \<Rightarrow> (False, st1)
         | (Some _, st1) \<Rightarrow>
        (case run_keygen env (rbxsigtools_path cfg) st1 of
           None \<Rightarrow> (False, st1)
         | Some (returncode, st2) \<Rightarrow>
        if returncode \<noteq> 0 then (False, st2)
        else let public_key_path = join_path env (rbxsigtools_path cfg) ''PublicKeyBlob.txt'' in
        if \<not> exists st2 public_key_path then (False, st2)
        else
        (case read_bytes st2 public_key_path of
           None \<Rightarrow> (False, st2)
         | Some raw \<Rightarrow>
        (case text_decode env raw of
           None \<Rightarrow> (False, st2)
         | Some text \<Rightarrow>
        (case read_bytes st2 (client_path cfg) of
           None \<Rightarrow> (False, st2)
         | Some content \<Rightarrow>
        let matches = key_findall content in
        if matches = [] then (False, st2)
        else
        (case encode (strip text) of
           None \<Rightarrow> (False, st2)
         | Some new_key \<Rightarrow>
        (case write_bytes st2 (client_path cfg) (replace_keys new_key content matches) of
           None \<Rightarrow> (False, st2)
         | Some st3 \<Rightarrow> (True, st3)))))))))"

section \<open>The patchers that prepare a manual debugger procedure\<close>

text \<open>
  \<open>BlockingPatcher\<close>, \<open>InvalidRequestPatcher\<close>, \<open>TrustCheckPatcher\<close>, \<open>RatnetKeyPatcher\<close>
  and \<open>HtmlServicePatcher\<close>: each validates, makes the backup and logs the manual
  instructions; \<open>BlockingPatcher\<close> also writes a script to a temporary file.
\<close>

definition blocking_validate :: "PatchConfig \<Rightarrow> fs \<Rightarrow> bool" where
  "blocking_validate cfg st =
     (if \<not> exists st (client_path cfg) then False
      else if x64dbg_path cfg = [] then False
      else if \<not> exists st (x64dbg_path cfg) then False
      else True)"

definition blocking_apply :: "platform \<Rightarrow> PatchConfig \<Rightarrow> fs \<Rightarrow> bool \<times> fs" where
  "blocking_apply env cfg st =
     (if \<not> blocking_validate cfg st then (False, st)
      else
        (case backup_client st (client_path cfg) of
           (None, st1) \<Rightarrow> (False, st1)
         | (Some _, st1) \<Rightarrow>
             (case write_temp_script env (client_path cfg) st1 of
                None \<Rightarrow> (False, st1)
              | Some st2 \<Rightarrow> (True, st2))))"

definition invalid_request_validate :: "PatchConfig \<Rightarrow> fs \<Rightarrow> bool" where
  "invalid_request_validate cfg st =
     (if \<not> exists st (client_path cfg) then False
      else if x64dbg_path cfg = [] then False
      else if \<not> exists st (x64dbg_path cfg) then False
      else True)"

definition invalid_request_apply :: "PatchConfig \<Rightarrow> fs \<Rightarrow> bool \<times> fs" where
  "invalid_request_apply cfg st =
     (if \<not> invalid_request_validate cfg st then (False, st)
      else
        (case backup_client st (client_path cfg) of
           (None, st1) \<Rightarrow> (False, st1)
         | (Some _, st1) \<Rightarrow> (True, st1)))"

definition trust_check_validate :: "PatchConfig \<Rightarrow> fs \<Rightarrow> bool" where
  "trust_check_validate cfg st =
     (if \<not> exists st (client_path cfg) then False
      else if x64dbg_path cfg = [] then False
      else if \<not> exists st (x64dbg_path cfg) then False
      else True)"

definition trust_check_apply :: "PatchConfig \<Rightarrow> fs \<Rightarrow> bool \<times> fs" where
  "trust_check_apply cfg st =
     (if \<not> trust_check_validate cfg st then (False, st)
      else
        (case backup_client st (client_path cfg) of
           (None, st1) \<Rightarrow> (False, st1)
         | (Some _, st1) \<Rightarrow> (True, st1)))"

definition ratnet_key_validate :: "PatchConfig \<Rightarrow> fs \<Rightarrow> bool" where
  "ratnet_key_validate cfg st =
     (if \<not> exists st (client_path cfg) then False
      else if client_type cfg \<noteq> RCC_SERVICE then False
      else if x64dbg_path cfg = [] then False
      else if \<not> exists st (x64dbg_path cfg) then False
      else True)"

definition ratnet_key_apply :: "PatchConfig \<Rightarrow> fs \<Rightarrow> bool \<times> fs" where
  "ratnet_key_apply cfg st =
     (if \<not> ratnet_key_validate cfg st then (False, st)
      else
        (case backup_client st (client_path cfg) of
           (None, st1) \<Rightarrow> (False, st1)
         | (Some _, st1) \<Rightarrow> (True, st1)))"

definition html_service_validate :: "PatchConfig \<Rightarrow> fs \<Rightarrow> bool" where
  "html_service_validate cfg st =
     (if \<not> exists st (client_path cfg) then False
      else if version_year cfg \<noteq> 2008 then False
      else if x64dbg_path cfg = [] then False
      else if \<not> exists st (x64dbg_path cfg) then False
      else True)"

definition html_service_apply :: "PatchConfig \<Rightarrow> fs \<Rightarrow> bool \<times> fs" where
  "html_service_apply cfg st =
     (if \<not> html_service_validate cfg st then (False, st)
      else
        (case backup_client st (client_path cfg) of
           (None, st1) \<Rightarrow> (False, st1)
         | (Some _, st1) \<Rightarrow> (True, st1)))"

section \<open>Orchestration (ui/patch_panel.py)\<close>

text \<open>The method each patcher class provides, by patch kind.\<close>

fun validate :: "platform \<Rightarrow> PatchConfig \<Rightarrow> PatchType \<Rightarrow> fs \<Rightarrow> bool" where
  "validate env cfg WEBSITE st = website_validate cfg st"
| "validate env cfg PUBLIC_KEY st = publickey_validate env cfg st"
| "validate env cfg BLOCKING st = blocking_validate cfg st"
| "validate env cfg INVALID_REQUEST st = invalid_request_validate cfg st"
| "validate env cfg TRUST_CHECK st = trust_check_validate cfg st"
| "validate env cfg RATNET_KEY st = ratnet_key_validate cfg st"
| "validate env cfg HTML_SERVICE st = html_service_validate cfg st"

fun apply_patch :: "platform \<Rightarrow> PatchConfig \<Rightarrow> PatchType \<Rightarrow> fs \<Rightarrow> bool \<times> fs" where
  "apply_patch env cfg WEBSITE st = website_apply env cfg st"
| "apply_patch env cfg PUBLIC_KEY st = publickey_apply env cfg st"
| "apply_patch env cfg BLOCKING st = blocking_apply env cfg st"
| "apply_patch env cfg INVALID_REQUEST st = invalid_request_apply cfg st"
| "apply_patch env cfg TRUST_CHECK st = trust_check_apply cfg st"
| "apply_patch env cfg RATNET_KEY st = ratnet_key_apply cfg st"
| "apply_patch env cfg HTML_SERVICE st = html_service_apply cfg st"

text \<open>
  \<open>_apply_patches_thread\<close> first builds the list of patchers, one membership test per
  kind in a fixed order, then runs the loop. Each iteration reports one status:
  validation failed (and \<open>continue\<close>), applied successfully, or failed to apply.
\<close>

definition create_patchers :: "PatchType set \<Rightarrow> PatchType list" where
  "create_patchers ps =
     filter (\<lambda>k. k \<in> ps)
       [WEBSITE, PUBLIC_KEY, BLOCKING, INVALID_REQUEST, TRUST_CHECK, RATNET_KEY, HTML_SERVICE]"

datatype status = ValidationFailed | AppliedSuccessfully | FailedToApply

fun apply_loop ::
  "platform \<Rightarrow> PatchConfig \<Rightarrow> PatchType list \<Rightarrow> fs \<Rightarrow> nat \<Rightarrow> (PatchType \<times> status) list \<times> nat \<times> fs" where
  "apply_loop env cfg [] st success_count = ([], success_count, st)"
| "apply_loop env cfg (k # ks) st success_count =
     (if \<not> validate env cfg k st then
        (case apply_loop env cfg ks st success_count of
           (out, n, st') \<Rightarrow> ((k, ValidationFailed) # out, n, st'))
      else
        (case apply_patch env cfg k st of
           (True, st1) \<Rightarrow>
             (case apply_loop env cfg ks st1 (success_count + 1) of
                (out, n, st') \<Rightarrow> ((k, AppliedSuccessfully) # out, n, st'))
         | (False, st1) \<Rightarrow>
             (case apply_loop env cfg ks st1 success_count of
                (out, n, st') \<Rightarrow> ((k, FailedToApply) # out, n, st'))))"

text \<open>
  The whole run: the statuses in order, the final summary \<open>(success_count, total_patches)\<close>
  that the last status message prints as \<open>success_count/total_patches\<close>, and the file
  system left behind.
\<close>

definition apply_patches_thread ::
  "platform \<Rightarrow> PatchConfig \<Rightarrow> fs \<Rightarrow> (PatchType \<times> status) list \<times> (nat \<times> nat) \<times> fs" where
  "apply_patches_thread env cfg st =
     (let patchers = create_patchers (patches cfg);
          total_patches = length patchers
      in case apply_loop env cfg patchers st 0 of
           (out, success_count, st') \<Rightarrow> (out, (success_count, total_patches), st'))"

text \<open>The outcome of one kind at the state in which its turn comes.\<close>

definition status_at :: "platform \<Rightarrow> PatchConfig \<Rightarrow> PatchType \<Rightarrow> fs \<Rightarrow> status" where
  "status_at env cfg k st =
     (if \<not> validate env cfg k st then ValidationFailed
      else if fst (apply_patch env cfg k st) then AppliedSuccessfully
      else FailedToApply)"

section \<open>A sample platform for worked examples\<close>

text \<open>
  POSIX-style paths, UTF-8 text files, an XML library that always fails, a key generator
  that writes the key \<open>BGIAAnew\<close> followed by a newline, and a fixed temporary file.
\<close>

definition sample_platform :: platform where
  "sample_platform =
     \<lparr> parent_dir = (\<lambda>p. rev (drop 1 (dropWhile (\<lambda>c. c \<noteq> CHR ''/'') (rev p)))),
       join_path = (\<lambda>d n. d @ ''/'' @ n),
       text_encode = encode,
       text_decode = (\<lambda>b. Some (map of_char b)),
       xml_set_base_url = (\<lambda>old url. None),
       run_keygen = (\<lambda>dir st. Some (0, st(dir @ ''/PublicKeyBlob.txt'' \<mapsto> File (''BGIAAnew'' @ [CHR 0x0A])))),
       write_temp_script = (\<lambda>p st. Some (st(''/tmp/script.txt'' \<mapsto> File (''InitDebug '' @ p)))) \<rparr>"

section \<open>Deploy history (deploy_downloader.py, client_downloader.py)\<close>

text \<open>
  One parsed line of the deploy history: the dictionary with the keys \<open>hash\<close>,
  \<open>timestamp\<close>, \<open>version_id\<close> and \<open>year\<close>.
\<close>

record version_info =
  hash :: pystr
  timestamp :: pystr
  version_id :: "pystr option"
  year :: int

text \<open>
  Library functions the parsers call, as parameters: \<open>strptime_year\<close> is
  \<open>datetime.strptime(s, '%Y-%m-%d %H:%M:%S').year\<close>, \<open>None\<close> where it raises
  \<open>ValueError\<close>; \<open>decimal_digit\<close> gives the value of a character that the regular
  expression class \<open>\d\<close> accepts.
\<close>

record pylib =
  strptime_year :: "pystr \<Rightarrow> int option"
  decimal_digit :: "nat \<Rightarrow> nat option"

text \<open>\<open>s.split(sep)\<close> for a separator of one character.\<close>

fun split_char :: "nat \<Rightarrow> pystr \<Rightarrow> pystr list" where
  "split_char sep [] = [[]]"
| "split_char sep (c # cs) =
     (if c = sep then [] # split_char sep cs
      else (case split_char sep cs of
              [] \<Rightarrow> [[c]]
            | p # ps \<Rightarrow> (c # p) # ps))"

definition comma :: nat where "comma = 44"
definition newline :: nat where "newline = 10"

text \<open>\<open>re.search(r'version-([0-9a-f]+)', version_hash)\<close>, group 1.\<close>

definition is_hex :: "nat \<Rightarrow> bool" where
  "is_hex c = ((48 \<le> c \<and> c \<le> 57) \<or> (97 \<le> c \<and> c \<le> 102))"

fun version_search :: "pystr \<Rightarrow> pystr option" where
  "version_search [] = None"
| "version_search (c # cs) =
     (if prefix (str_of ''version-'') (c # cs) \<and> takeWhile is_hex (drop 8 (c # cs)) \<noteq> []
      then Some (takeWhile is_hex (drop 8 (c # cs)))
      else version_search cs)"

text \<open>\<open>re.search(r'20\d\d', timestamp)\<close> and \<open>int\<close> of the match.\<close>

fun year_search :: "pylib \<Rightarrow> pystr \<Rightarrow> int option" where
  "year_search lib (a # b # c # d # rest) =
     (case (a = 50 \<and> b = 48, decimal_digit lib c, decimal_digit lib d) of
        (True, Some x, Some y) \<Rightarrow> Some (2000 + 10 * int x + int y)
      | _ \<Rightarrow> year_search lib (b # c # d # rest))"
| "year_search lib _ = None"

text \<open>
  \<open>DeployDownloader.download_deploy_history\<close> of deploy_downloader.py. The whole loop is
  inside one \<open>try\<close>: an exception in any line leaves the loop, and the function returns
  the empty list. \<open>response\<close> is the text fetched, \<open>None\<close> when the request fails.
\<close>

fun parse_lines :: "pylib \<Rightarrow> pystr list \<Rightarrow> version_info list option" where
  "parse_lines lib [] = Some []"
| "parse_lines lib (line # lines) =
     (let parts = split_char comma line in
      if length parts \<ge> 2 then
        (let version_hash = strip (parts ! 0);
             ts = strip (parts ! 1)
         in case strptime_year lib ts of
              None \<Rightarrow> None
            | Some y \<Rightarrow>
                (case parse_lines lib lines of
                   None \<Rightarrow> None
                 | Some versions \<Rightarrow>
                     Some (\<lparr> hash = version_hash, timestamp = ts,
                              version_id = version_search version_hash, year = y \<rparr> # versions)))
      else parse_lines lib lines)"

definition download_deploy_history :: "pylib \<Rightarrow> pystr option \<Rightarrow> version_info list" where
  "download_deploy_history lib response =
     (case response of
        None \<Rightarrow> []
      | Some text \<Rightarrow>
          (case parse_lines lib (split_char newline (strip text)) of
             None \<Rightarrow> []
           | Some versions \<Rightarrow> versions))"

text \<open>
  \<open>DeployDownloader.download_deploy_history\<close> of client_downloader.py. Each line has its
  own \<open>try\<close>; a header line or a line without a time is skipped, and a timestamp that
  \<open>strptime\<close> rejects falls back to a search for a year.
\<close>

definition parse_line_gui :: "pylib \<Rightarrow> pystr \<Rightarrow> version_info option" where
  "parse_line_gui lib line =
     (let parts = split_char comma line in
      if length parts \<ge> 2 then
        (let version_hash = strip (parts ! 0);
             ts = strip (parts ! 1)
         in if prefix (str_of ''file'') version_hash \<or> 58 \<notin> set ts then None
            else
              (let y = (case strptime_year lib ts of
                          Some y \<Rightarrow> Some y
                        | None \<Rightarrow> year_search lib ts)
               in case y of
                    None \<Rightarrow> None
                  | Some y \<Rightarrow>
                      if y \<noteq> 0 then
                        Some \<lparr> hash = version_hash, timestamp = ts,
                               version_id = version_search version_hash, year = y \<rparr>
                      else None))
      else None)"

fun parse_lines_gui :: "pylib \<Rightarrow> pystr list \<Rightarrow> version_info list" where
  "parse_lines_gui lib [] = []"
| "parse_lines_gui lib (line # lines) =
     (case parse_line_gui lib line of
        None \<Rightarrow> parse_lines_gui lib lines
      | Some v \<Rightarrow> v # parse_lines_gui lib lines)"

definition download_deploy_history_gui :: "pylib \<Rightarrow> pystr option \<Rightarrow> version_info list" where
  "download_deploy_history_gui lib response =
     (case response of
        None \<Rightarrow> []
      | Some text \<Rightarrow> parse_lines_gui lib (split_char newline (strip text)))"

section \<open>Selection by year and by range (deploy_downloader.py)\<close>

text \<open>
  A Python dictionary keeps its keys in insertion order; assigning to a key that is
  present replaces the value in place.
\<close>

fun dict_set :: "('k \<times> 'v) list \<Rightarrow> 'k \<Rightarrow> 'v \<Rightarrow> ('k \<times> 'v) list" where
  "dict_set [] k v = [(k, v)]"
| "dict_set ((k', v') # d) k v = (if k' = k then (k, v) # d else (k', v') # dict_set d k v)"

fun dict_update :: "('k \<times> 'v) list \<Rightarrow> ('k \<times> 'v) list \<Rightarrow> ('k \<times> 'v) list" where
  "dict_update d [] = d"
| "dict_update d ((k, v) # e) = dict_update (dict_set d k v) e"

text \<open>\<open>str(n)\<close> of an integer, for the keys of the result.\<close>

function nat_digits :: "nat \<Rightarrow> pystr" where
  "nat_digits n = (if n < 10 then [48 + n] else nat_digits (n div 10) @ [48 + n mod 10])"
  by pat_completeness auto
termination
  by (relation "measure id") auto

definition str_int :: "int \<Rightarrow> pystr" where
  "str_int i = (if i < 0 then 45 # nat_digits (nat (- i)) else nat_digits (nat i))"

text \<open>\<open>xs[:n]\<close>: a negative \<open>n\<close> counts from the end.\<close>

definition slice_to :: "int \<Rightarrow> 'a list \<Rightarrow> 'a list" where
  "slice_to n xs = (if 0 \<le> n then take (nat n) xs else take (length xs - nat (- n)) xs)"

text \<open>
  \<open>year_versions.sort(key=lambda v: v['timestamp'], reverse=True)\<close>: a stable sort in
  descending order of the timestamps, compared as strings; records with equal
  timestamps keep their order.
\<close>

definition sort_newest_first :: "version_info list \<Rightarrow> version_info list" where
  "sort_newest_first vs = rev (sort_key timestamp (rev vs))"

definition year_versions :: "version_info list \<Rightarrow> int \<Rightarrow> version_info list" where
  "year_versions versions y = filter (\<lambda>v. year v = y) versions"

definition selected_versions :: "version_info list \<Rightarrow> int \<Rightarrow> int \<Rightarrow> version_info list" where
  "selected_versions versions y max_versions =
     slice_to max_versions (sort_newest_first (year_versions versions y))"

text \<open>
  The download itself is the external tool: \<open>download_client\<close> gives the path of the
  downloaded client or \<open>None\<close>. \<open>versions\<close> is what \<open>download_deploy_history\<close> returns.
\<close>

definition result_key :: "pystr \<Rightarrow> int \<Rightarrow> pystr option \<Rightarrow> pystr" where
  "result_key ctype y vid =
     ctype @ [95] @ str_int y @ [95] @ (case vid of None \<Rightarrow> str_of ''None'' | Some i \<Rightarrow> i)"

fun download_types ::
  "(pystr \<Rightarrow> pystr \<Rightarrow> pystr option) \<Rightarrow> int \<Rightarrow> version_info \<Rightarrow> pystr list \<Rightarrow>
   (pystr \<times> pystr) list \<Rightarrow> (pystr \<times> pystr) list" where
  "download_types download_client y version [] results = results"
| "download_types download_client y version (ctype # ctypes) results =
     (case download_client (hash version) ctype of
        None \<Rightarrow> download_types download_client y version ctypes results
      | Some result \<Rightarrow>
          if result \<noteq> [] then
            download_types download_client y version ctypes
              (dict_set results (result_key ctype y (version_id version)) result)
          else download_types download_client y version ctypes results)"

fun download_versions ::
  "(pystr \<Rightarrow> pystr \<Rightarrow> pystr option) \<Rightarrow> int \<Rightarrow> version_info list \<Rightarrow> pystr list \<Rightarrow>
   (pystr \<times> pystr) list \<Rightarrow> (pystr \<times> pystr) list" where
  "download_versions download_client y [] ctypes results = results"
| "download_versions download_client y (version # versions) ctypes results =
     download_versions download_client y versions ctypes
       (download_types download_client y version ctypes results)"

definition download_by_year ::
  "(pystr \<Rightarrow> pystr \<Rightarrow> pystr option) \<Rightarrow> version_info list \<Rightarrow> int \<Rightarrow> pystr list \<Rightarrow> int \<Rightarrow>
   (pystr \<times> pystr) list" where
  "download_by_year download_client versions y client_types max_versions =
     (if year_versions versions y = [] then []
      else download_versions download_client y
             (selected_versions versions y max_versions) client_types [])"

text \<open>\<open>for year in range(start_year, end_year + 1)\<close>.\<close>

fun download_years ::
  "(pystr \<Rightarrow> pystr \<Rightarrow> pystr option) \<Rightarrow> version_info list \<Rightarrow> int list \<Rightarrow> pystr list \<Rightarrow> int \<Rightarrow>
   (pystr \<times> pystr) list \<Rightarrow> (pystr \<times> pystr) list" where
  "download_years download_client versions [] client_types n results = results"
| "download_years download_client versions (y # ys) client_types n results =
     download_years download_client versions ys client_types n
       (dict_update results (download_by_year download_client versions y client_types n))"

definition download_range ::
  "(pystr \<Rightarrow> pystr \<Rightarrow> pystr option) \<Rightarrow> version_info list \<Rightarrow> int \<Rightarrow> int \<Rightarrow> pystr list \<Rightarrow> int \<Rightarrow>
   (pystr \<times> pystr) list" where
  "download_range download_client versions start_year end_year client_types max_versions_per_year =
     download_years download_client versions [start_year..end_year] client_types
       max_versions_per_year []"

text \<open>
  The \<open>--range\<close> branch of \<open>main\<close>, after the two years have been read from the
  argument: bounds given in the wrong order are swapped before \<open>download_range\<close> is
  called.
\<close>

definition main_range ::
  "(pystr \<Rightarrow> pystr \<Rightarrow> pystr option) \<Rightarrow> version_info list \<Rightarrow> int \<Rightarrow> int \<Rightarrow> pystr list \<Rightarrow> int \<Rightarrow>
   (pystr \<times> pystr) list" where
  "main_range download_client versions start_year end_year client_types max_versions =
     (if start_year > end_year
      then download_range download_client versions end_year start_year client_types max_versions
      else download_range download_client versions start_year end_year client_types max_versions)"

text \<open>
  A sample library for worked examples: \<open>strptime_year\<close> accepts exactly the fixed-width
  form \<open>YYYY-MM-DD HH:MM:SS\<close> of ASCII digits and returns the year; the decimal digits
  are the ASCII ones.
\<close>

definition ascii_digit :: "nat \<Rightarrow> nat option" where
  "ascii_digit c = (if 48 \<le> c \<and> c \<le> 57 then Some (c - 48) else None)"

definition sample_strptime_year :: "pystr \<Rightarrow> int option" where
  "sample_strptime_year s =
     (if length s = 19 \<and>
         (\<forall>i \<in> {0, 1, 2, 3, 5, 6, 8, 9, 11, 12, 14, 15, 17, 18}. ascii_digit (s ! i) \<noteq> None) \<and>
         s ! 4 = 45 \<and> s ! 7 = 45 \<and> s ! 10 = 32 \<and> s ! 13 = 58 \<and> s ! 16 = 58
      then Some (1000 * int (s ! 0 - 48) + 100 * int (s ! 1 - 48) + 10 * int (s ! 2 - 48) +
                 int (s ! 3 - 48))
      else None)"

definition sample_lib :: pylib where
  "sample_lib = \<lparr> strptime_year = sample_strptime_year, decimal_digit = ascii_digit \<rparr>"
section \<open>Properties of domain normalisation\<close>

text \<open>
  With a logger in place, \<open>_validate_domain\<close> does what its comments say: the result
  has exactly 10 characters, the domain padded with dots or cut to its first 10.
\<close>

lemma validate_domain_with_logger:
  "validate_domain True d = Inr (take 10 (d @ replicate (10 - length d) (of_char CHR ''.'')))"
  by (simp add: validate_domain_def)

text \<open>
  C10 does not hold of the program: the constructor calls \<open>_validate_domain\<close> before the
  logger exists, so every domain that is not exactly 10 characters long, the default
  \<open>localhost\<close> included, ends the construction with \<open>AttributeError\<close> instead of being
  padded or truncated. Only a domain of exactly 10 characters is accepted, unchanged.
\<close>

theorem modern_patcher_init_domain:
  "modern_patcher_init d = (if length d = 10 then Inr d else Inl AttributeError)"
  by (simp add: modern_patcher_init_def validate_domain_def)

theorem modern_patcher_init_domain_witness:
  "modern_patcher_init (str_of ''localhost'') = Inl AttributeError \<and>
   modern_patcher_init (str_of ''toolong.example.org'') = Inl AttributeError \<and>
   modern_patcher_init (str_of ''mysite.xyz'') = Inr (str_of ''mysite.xyz'')"
  using modern_patcher_init_domain [of "str_of ''localhost''"]
    modern_patcher_init_domain [of "str_of ''toolong.example.org''"]
    modern_patcher_init_domain [of "str_of ''mysite.xyz''"]
  by (simp add: str_of_def)

section \<open>Properties of the fixed-length replace\<close>

lemma join_occ_split: "join_with s (fst (occ_split s xs)) (snd (occ_split s xs)) = xs"
proof (induction s xs rule: occ_split.induct)
  case (1 s)
  then show ?case by simp
next
  case (2 s x xs)
  show ?case
  proof (cases "s \<noteq> [] \<and> prefix s (x # xs)")
    case True
    then have eq: "occ_split s (x # xs) =
        ([] # fst (occ_split s (drop (length s) (x # xs))),
         snd (occ_split s (drop (length s) (x # xs))))"
      by (simp add: split_beta del: drop_Suc_Cons)
    from True have "s @ drop (length s) (x # xs) = x # xs"
      by (metis prefix_def append_eq_conv_conj)
    with 2(1)[OF True] show ?thesis unfolding eq by simp
  next
    case False
    with 2(2)[OF False] show ?thesis
      by (cases "occ_split s xs"; cases "fst (occ_split s xs)") auto
  qed
qed

lemma replace_scan_join:
  "replace_scan s r xs = join_with r (fst (occ_split s xs)) (snd (occ_split s xs))"
proof (induction s xs rule: occ_split.induct)
  case (1 s)
  then show ?case by simp
next
  case (2 s x xs)
  show ?case
  proof (cases "s \<noteq> [] \<and> prefix s (x # xs)")
    case True
    with 2(1)[OF True] show ?thesis
      by (simp add: split_beta del: drop_Suc_Cons)
  next
    case False
    with 2(2)[OF False] show ?thesis
      by (cases "occ_split s xs"; cases "fst (occ_split s xs)") auto
  qed
qed

lemma py_in_occ: "s \<noteq> [] \<Longrightarrow> py_in s xs \<longleftrightarrow> fst (occ_split s xs) \<noteq> []"
proof (induction s xs rule: occ_split.induct)
  case (1 s)
  then show ?case by simp
next
  case (2 s x xs)
  show ?case
  proof (cases "prefix s (x # xs)")
    case True
    with 2(3) show ?thesis by (simp add: split_beta del: drop_Suc_Cons)
  next
    case False
    with 2(2) 2(3) show ?thesis
      by (cases "occ_split s xs"; cases "fst (occ_split s xs)") auto
  qed
qed



lemma prefix_replace_scan:
  "r \<noteq> [] \<Longrightarrow> set t \<inter> set r = {} \<Longrightarrow> prefix t (replace_scan s r xs) \<Longrightarrow> prefix t xs"
proof (induction s r xs arbitrary: t rule: replace_scan.induct)
  case (1 s r)
  then show ?case by simp
next
  case (2 s r x xs)
  show ?case
  proof (cases t)
    case Nil
    then show ?thesis by simp
  next
    case (Cons a t')
    show ?thesis
    proof (cases "s \<noteq> [] \<and> prefix s (x # xs)")
      case True
      with 2(5) Cons have "prefix (a # t') (r @ replace_scan s r (drop (length s) (x # xs)))"
        by (simp del: drop_Suc_Cons)
      with 2(3) have "a = hd r" by (cases r) auto
      with 2(3) 2(4) Cons show ?thesis by (cases r) auto
    next
      case False
      with 2(5) Cons have ax: "a = x" and p: "prefix t' (replace_scan s r xs)" by auto
      from 2(4) Cons have "set t' \<inter> set r = {}" by auto
      from 2(2)[OF False 2(3) this p] ax Cons show ?thesis by simp
    qed
  qed
qed

lemma py_in_append_disjoint:
  "s \<noteq> [] \<Longrightarrow> set s \<inter> set r = {} \<Longrightarrow> py_in s (r @ ys) \<Longrightarrow> py_in s ys"
proof (induction r)
  case Nil
  then show ?case by simp
next
  case (Cons a r)
  from Cons.prems(1,2) have "\<not> prefix s (a # r @ ys)" by (cases s) auto
  with Cons show ?case by auto
qed

lemma not_in_replace_scan:
  "s \<noteq> [] \<Longrightarrow> length s = length r \<Longrightarrow> set s \<inter> set r = {} \<Longrightarrow> \<not> py_in s (replace_scan s r xs)"
proof (induction s r xs rule: replace_scan.induct)
  case (1 s r)
  then show ?case by simp
next
  case (2 s r x xs)
  from 2(3,4) have rne: "r \<noteq> []" by auto
  show ?case
  proof (cases "s \<noteq> [] \<and> prefix s (x # xs)")
    case True
    from 2(1)[OF True 2(3) 2(4) 2(5)] py_in_append_disjoint[OF 2(3) 2(5)] True
    show ?thesis by (auto simp del: drop_Suc_Cons)
  next
    case False
    have "\<not> prefix s (x # replace_scan s r xs)"
    proof
      assume "prefix s (x # replace_scan s r xs)"
      moreover have "replace_scan s r (x # xs) = x # replace_scan s r xs"
        using False by auto
      ultimately have "prefix s (replace_scan s r (x # xs))" by simp
      from prefix_replace_scan[OF rne 2(5) this] False 2(3) show False by simp
    qed
    moreover have "replace_scan s r (x # xs) = x # replace_scan s r xs"
      using False by auto
    ultimately show ?thesis using 2(2)[OF False 2(3) 2(4) 2(5)] by simp
  qed
qed

lemma occ_split_gaps:
  "s \<noteq> [] \<Longrightarrow> (\<forall>g \<in> set (fst (occ_split s xs)). \<not> py_in s g) \<and> \<not> py_in s (snd (occ_split s xs))"
proof (induction s xs rule: occ_split.induct)
  case (1 s)
  then show ?case by simp
next
  case (2 s x xs)
  show ?case
  proof (cases "prefix s (x # xs)")
    case True
    with 2(1) 2(3) show ?thesis by (simp add: split_beta del: drop_Suc_Cons)
  next
    case False
    note IH = 2(2)[OF _ 2(3)]
    have j: "join_with s (fst (occ_split s xs)) (snd (occ_split s xs)) = xs"
      by (rule join_occ_split)
    show ?thesis
    proof (cases "fst (occ_split s xs)")
      case Nil
      with j have l: "snd (occ_split s xs) = xs" by simp
      from Nil have "occ_split s (x # xs) = ([], x # snd (occ_split s xs))"
        using False by (cases "occ_split s xs") auto
      with l IH False show ?thesis by auto
    next
      case (Cons g gs)
      with j have xs: "xs = g @ s @ join_with s gs (snd (occ_split s xs))" by simp
      have np: "\<not> prefix s (x # g)"
      proof
        assume "prefix s (x # g)"
        then have "prefix s ((x # g) @ s @ join_with s gs (snd (occ_split s xs)))"
          using prefix_prefix by blast
        with xs False show False by simp
      qed
      from Cons have "occ_split s (x # xs) = ((x # g) # gs, snd (occ_split s xs))"
        using False by (cases "occ_split s xs") auto
      with Cons IH False np show ?thesis by auto
    qed
  qed
qed

text \<open>
  C3: when the search pattern and the replacement differ in byte length, the fixed-length
  replace fails in its length check, before the file is opened, and the file system is
  left exactly as it was.
\<close>

theorem replace_in_binary_length_mismatch:
  assumes "to_bytes search = Some s" and "to_bytes repl = Some r" and "length s \<noteq> length r"
  shows "replace_in_binary st p search repl = (Inl LengthMismatch, st)"
  using assms by (simp add: replace_in_binary_def)

theorem replace_in_binary_length_mismatch_witness:
  "to_bytes (PBytes ''roblox.com'') = Some ''roblox.com'' \<and>
   to_bytes (PStr (str_of ''localhost'')) = Some ''localhost'' \<and>
   length ''roblox.com'' \<noteq> length ''localhost'' \<and>
   replace_in_binary [''client.exe'' \<mapsto> File ''www.roblox.com''] ''client.exe''
       (PBytes ''roblox.com'') (PStr (str_of ''localhost''))
     = (Inl LengthMismatch, [''client.exe'' \<mapsto> File ''www.roblox.com''])"
proof -
  have a: "to_bytes (PBytes ''roblox.com'') = Some ''roblox.com''" by simp
  have b: "to_bytes (PStr (str_of ''localhost'')) = Some ''localhost''"
    by code_simp
  have c: "length ''roblox.com'' \<noteq> length ''localhost''" by simp
  from replace_in_binary_length_mismatch [OF a b c] a b c show ?thesis by blast
qed

text \<open>
  C4 as stated does not hold: a replacement can bring the search pattern back. In the
  buffer \<open>aab\<close>, replacing \<open>ab\<close> by \<open>ba\<close> gives \<open>aba\<close>, which contains \<open>ab\<close> again, so
  the second application succeeds instead of reporting that the pattern is missing.
\<close>

theorem replace_twice_counterexample:
  "py_in ''ab'' ''aab'' \<and> length ''ab'' = length ''ba'' \<and>
   replace_in_binary [''f'' \<mapsto> File ''aab''] ''f'' (PBytes ''ab'') (PBytes ''ba'')
     = (Inr (), [''f'' \<mapsto> File ''aba'']) \<and>
   replace_in_binary [''f'' \<mapsto> File ''aba''] ''f'' (PBytes ''ab'') (PBytes ''ba'')
     = (Inr (), [''f'' \<mapsto> File ''baa''])"
  by (simp add: replace_in_binary_def read_bytes_def write_bytes_def py_replace_def)

text \<open>
  C4, amended: for a non-empty search pattern that occurs in the file and a replacement
  of the same length, the replace succeeds; the file was the gaps joined by the search
  pattern, none of the gaps containing it, and becomes the same gaps joined by the
  replacement, so every one of the \<open>k \<ge> 1\<close> occurrences is rewritten. When the pattern
  and the replacement have no byte in common, applying the operation again fails with
  \<open>PatternNotFound\<close> and changes nothing.
\<close>

theorem replace_in_binary_all_occurrences:
  assumes "to_bytes search = Some s" and "to_bytes repl = Some r"
    and "read_bytes st p = Some content" and "py_in s content"
    and "length s = length r" and "s \<noteq> []"
  shows "fst (occ_split s content) \<noteq> [] \<and>
    (\<forall>g \<in> set (fst (occ_split s content)). \<not> py_in s g) \<and>
    \<not> py_in s (snd (occ_split s content)) \<and>
    content = join_with s (fst (occ_split s content)) (snd (occ_split s content)) \<and>
    replace_in_binary st p search repl =
      (Inr (), st(p \<mapsto> File (join_with r (fst (occ_split s content)) (snd (occ_split s content))))) \<and>
    (set s \<inter> set r = {} \<longrightarrow>
       replace_in_binary (snd (replace_in_binary st p search repl)) p search repl =
         (Inl PatternNotFound, snd (replace_in_binary st p search repl)))"
proof -
  let ?out = "join_with r (fst (occ_split s content)) (snd (occ_split s content))"
  from assms(3) have f: "st p = Some (File content)"
    by (auto simp: read_bytes_def split: option.splits node.splits)
  have out: "py_replace s r content = ?out"
    using assms(6) by (simp add: py_replace_def replace_scan_join)
  have first: "replace_in_binary st p search repl = (Inr (), st(p \<mapsto> File ?out))"
    using assms f out by (simp add: replace_in_binary_def write_bytes_def)
  have second: "replace_in_binary (st(p \<mapsto> File ?out)) p search repl =
      (Inl PatternNotFound, st(p \<mapsto> File ?out))" if "set s \<inter> set r = {}"
  proof -
    have "\<not> py_in s ?out"
      using not_in_replace_scan[OF assms(6) assms(5) that] by (simp add: replace_scan_join)
    then show ?thesis
      using assms(1,2,5) by (simp add: replace_in_binary_def read_bytes_def)
  qed
  from py_in_occ[OF assms(6)] assms(4) have "fst (occ_split s content) \<noteq> []" by simp
  moreover note occ_split_gaps[OF assms(6), of content] join_occ_split[of s content, symmetric]
    first
  moreover have "set s \<inter> set r = {} \<longrightarrow>
       replace_in_binary (snd (replace_in_binary st p search repl)) p search repl =
         (Inl PatternNotFound, snd (replace_in_binary st p search repl))"
    using second by (simp add: first)
  ultimately show ?thesis by blast
qed

theorem replace_in_binary_all_occurrences_witness:
  "fst (occ_split ''roblox.com'' ''a.roblox.com/b.roblox.com'') = [''a.'', ''/b.''] \<and>
   snd (occ_split ''roblox.com'' ''a.roblox.com/b.roblox.com'') = [] \<and>
   replace_in_binary [''client.exe'' \<mapsto> File ''a.roblox.com/b.roblox.com''] ''client.exe''
       (PBytes ''roblox.com'') (PBytes ''MYSITE-XYZ'')
     = (Inr (), [''client.exe'' \<mapsto> File ''a.MYSITE-XYZ/b.MYSITE-XYZ'']) \<and>
   replace_in_binary [''client.exe'' \<mapsto> File ''a.MYSITE-XYZ/b.MYSITE-XYZ''] ''client.exe''
       (PBytes ''roblox.com'') (PBytes ''MYSITE-XYZ'')
     = (Inl PatternNotFound, [''client.exe'' \<mapsto> File ''a.MYSITE-XYZ/b.MYSITE-XYZ''])"
proof -
  let ?st = "[''client.exe'' \<mapsto> File ''a.roblox.com/b.roblox.com'']"
  have a: "to_bytes (PBytes ''roblox.com'') = Some ''roblox.com''" by simp
  have b: "to_bytes (PBytes ''MYSITE-XYZ'') = Some ''MYSITE-XYZ''" by simp
  have c: "read_bytes ?st ''client.exe'' = Some ''a.roblox.com/b.roblox.com''"
    by (simp add: read_bytes_def)
  have d: "py_in ''roblox.com'' ''a.roblox.com/b.roblox.com''" by simp
  have e: "length ''roblox.com'' = length ''MYSITE-XYZ''" by simp
  have f: "''roblox.com'' \<noteq> []" by simp
  have g: "set ''roblox.com'' \<inter> set ''MYSITE-XYZ'' = {}" by simp
  have h: "occ_split ''roblox.com'' ''a.roblox.com/b.roblox.com'' = ([''a.'', ''/b.''], [])"
    by simp
  note T = replace_in_binary_all_occurrences [OF a b c d e f]
  from T h have first:
    "replace_in_binary ?st ''client.exe'' (PBytes ''roblox.com'') (PBytes ''MYSITE-XYZ'')
       = (Inr (), [''client.exe'' \<mapsto> File ''a.MYSITE-XYZ/b.MYSITE-XYZ''])"
    by simp
  from T g have
    "replace_in_binary
       (snd (replace_in_binary ?st ''client.exe'' (PBytes ''roblox.com'') (PBytes ''MYSITE-XYZ'')))
       ''client.exe'' (PBytes ''roblox.com'') (PBytes ''MYSITE-XYZ'')
     = (Inl PatternNotFound,
        snd (replace_in_binary ?st ''client.exe'' (PBytes ''roblox.com'') (PBytes ''MYSITE-XYZ'')))"
    by blast
  then have second:
    "replace_in_binary [''client.exe'' \<mapsto> File ''a.MYSITE-XYZ/b.MYSITE-XYZ''] ''client.exe''
       (PBytes ''roblox.com'') (PBytes ''MYSITE-XYZ'')
     = (Inl PatternNotFound, [''client.exe'' \<mapsto> File ''a.MYSITE-XYZ/b.MYSITE-XYZ''])"
    by (simp add: first)
  from h first second show ?thesis by simp
qed

section \<open>Properties of the backup\<close>

lemma backup_path_neq: "backup_path_of p \<noteq> p"
  by (simp add: backup_path_of_def)

lemma backup_client_existing:
  "exists st p \<Longrightarrow> exists st (backup_path_of p) \<Longrightarrow> backup_client st p = (Some (backup_path_of p), st)"
  by (simp add: backup_client_def)

lemma create_backup_existing:
  "exists st p \<Longrightarrow> exists st (backup_path_of p) \<Longrightarrow> create_backup st p = (Inr (backup_path_of p), st)"
  by (simp add: create_backup_def)

lemma backup_client_fresh:
  "st p = Some (File b) \<Longrightarrow> \<not> exists st (backup_path_of p) \<Longrightarrow>
   backup_client st p = (Some (backup_path_of p), st(backup_path_of p \<mapsto> File b))"
  by (simp add: backup_client_def exists_def copy2_def Let_def)

lemma create_backup_fresh:
  "st p = Some (File b) \<Longrightarrow> \<not> exists st (backup_path_of p) \<Longrightarrow>
   create_backup st p = (Inr (backup_path_of p), st(backup_path_of p \<mapsto> File b))"
  by (simp add: create_backup_def exists_def copy2_def Let_def)

text \<open>
  C5: the backup is made once and never overwritten. For an existing target file with no
  backup yet, the first call copies the target's bytes to the path with the suffix
  \<open>.backup\<close>; after any later change of the target, a second call returns the same
  backup path and leaves the file system as it is, so the backup still holds the bytes
  the target had at the first call. Whenever a backup already exists it is returned
  unchanged. Both \<open>backup_client\<close> and \<open>create_backup\<close> behave so.
\<close>

theorem backup_created_once:
  assumes "st p = Some (File b)" and "\<not> exists st (backup_path_of p)"
  shows "backup_client st p = (Some (backup_path_of p), st(backup_path_of p \<mapsto> File b)) \<and>
         create_backup st p = (Inr (backup_path_of p), st(backup_path_of p \<mapsto> File b)) \<and>
         (\<forall>c. backup_client ((snd (backup_client st p))(p \<mapsto> File c)) p =
                (Some (backup_path_of p), (snd (backup_client st p))(p \<mapsto> File c)) \<and>
              create_backup ((snd (create_backup st p))(p \<mapsto> File c)) p =
                (Inr (backup_path_of p), (snd (create_backup st p))(p \<mapsto> File c)) \<and>
              ((snd (backup_client st p))(p \<mapsto> File c)) (backup_path_of p) = Some (File b)) \<and>
         (\<forall>st'. exists st' p \<and> exists st' (backup_path_of p) \<longrightarrow>
              backup_client st' p = (Some (backup_path_of p), st') \<and>
              create_backup st' p = (Inr (backup_path_of p), st'))"
proof -
  let ?bp = "backup_path_of p"
  let ?st1 = "st(?bp \<mapsto> File b)"
  have a: "backup_client st p = (Some ?bp, ?st1)"
    using assms by (rule backup_client_fresh)
  have b: "create_backup st p = (Inr ?bp, ?st1)"
    using assms by (rule create_backup_fresh)
  have c: "backup_client (?st1(p \<mapsto> File c)) p = (Some ?bp, ?st1(p \<mapsto> File c))" for c
    by (rule backup_client_existing) (simp_all add: exists_def backup_path_neq)
  have d: "create_backup (?st1(p \<mapsto> File c)) p = (Inr ?bp, ?st1(p \<mapsto> File c))" for c
    by (rule create_backup_existing) (simp_all add: exists_def backup_path_neq)
  have e: "(?st1(p \<mapsto> File c)) ?bp = Some (File b)" for c
    by (simp add: backup_path_neq)
  show ?thesis
    using a b c d e backup_client_existing create_backup_existing by simp
qed

theorem backup_created_once_witness:
  "backup_client [''client.exe'' \<mapsto> File ''v1''] ''client.exe'' =
     (Some ''client.exe.backup'', [''client.exe'' \<mapsto> File ''v1'', ''client.exe.backup'' \<mapsto> File ''v1'']) \<and>
   backup_client [''client.exe'' \<mapsto> File ''v1'', ''client.exe.backup'' \<mapsto> File ''v1'', ''client.exe'' \<mapsto> File ''v2'']
       ''client.exe'' =
     (Some ''client.exe.backup'',
      [''client.exe'' \<mapsto> File ''v1'', ''client.exe.backup'' \<mapsto> File ''v1'', ''client.exe'' \<mapsto> File ''v2'']) \<and>
   [''client.exe'' \<mapsto> File ''v1'', ''client.exe.backup'' \<mapsto> File ''v1'', ''client.exe'' \<mapsto> File ''v2'']
       ''client.exe.backup'' = Some (File ''v1'')"
proof -
  let ?st = "[''client.exe'' \<mapsto> File ''v1'']"
  have a: "?st ''client.exe'' = Some (File ''v1'')" by simp
  have b: "\<not> exists ?st (backup_path_of ''client.exe'')"
    by (simp add: exists_def backup_path_of_def)
  note T = backup_created_once [OF a b]
  from T have first: "backup_client ?st ''client.exe'' =
      (Some ''client.exe.backup'', ?st(''client.exe.backup'' \<mapsto> File ''v1''))"
    by (simp add: backup_path_of_def)
  from T have "backup_client ((snd (backup_client ?st ''client.exe''))(''client.exe'' \<mapsto> File ''v2'')) ''client.exe'' =
      (Some (backup_path_of ''client.exe''), (snd (backup_client ?st ''client.exe''))(''client.exe'' \<mapsto> File ''v2''))"
    by blast
  then have second: "backup_client (?st(''client.exe.backup'' \<mapsto> File ''v1'', ''client.exe'' \<mapsto> File ''v2'')) ''client.exe'' =
      (Some ''client.exe.backup'', ?st(''client.exe.backup'' \<mapsto> File ''v1'', ''client.exe'' \<mapsto> File ''v2''))"
    by (simp add: first backup_path_of_def)
  from first second show ?thesis by simp
qed

section \<open>Properties of the patchers\<close>

text \<open>
  C1: when validation fails, \<open>apply\<close> returns failure and leaves the whole file system,
  the target binary and the settings file included, as it was; this holds for each of
  the seven patchers. For the website patch, validation fails in particular when the
  client file is missing or the domain is not exactly 10 characters long.
\<close>

theorem apply_after_failed_validation:
  "(\<not> validate env cfg k st \<longrightarrow> apply_patch env cfg k st = (False, st)) \<and>
   ((\<not> exists st (client_path cfg) \<or> length (website_domain cfg) \<noteq> 10) \<longrightarrow>
      \<not> website_validate cfg st \<and> website_apply env cfg st = (False, st))"
proof -
  have "apply_patch env cfg k st = (False, st)" if "\<not> validate env cfg k st"
    using that
    by (cases k)
       (simp_all add: website_apply_def publickey_apply_def blocking_apply_def
          invalid_request_apply_def trust_check_apply_def ratnet_key_apply_def
          html_service_apply_def)
  moreover have "\<not> website_validate cfg st \<and> website_apply env cfg st = (False, st)"
    if "\<not> exists st (client_path cfg) \<or> length (website_domain cfg) \<noteq> 10"
    using that by (auto simp: website_validate_def website_apply_def)
  ultimately show ?thesis by blast
qed

theorem apply_after_failed_validation_witness:
  "website_apply sample_platform
     \<lparr> client_path = ''/c/client.exe'', website_domain = str_of ''localhost'', version_year = 2010,
       client_type = PLAYER, patches = {WEBSITE}, rbxsigtools_path = [], x64dbg_path = [] \<rparr>
     [''/c/client.exe'' \<mapsto> File ''www.roblox.com'']
   = (False, [''/c/client.exe'' \<mapsto> File ''www.roblox.com'']) \<and>
   apply_patch sample_platform
     \<lparr> client_path = ''/c/client.exe'', website_domain = str_of ''localhost'', version_year = 2010,
       client_type = PLAYER, patches = {WEBSITE}, rbxsigtools_path = [], x64dbg_path = [] \<rparr>
     PUBLIC_KEY [''/c/client.exe'' \<mapsto> File ''www.roblox.com'']
   = (False, [''/c/client.exe'' \<mapsto> File ''www.roblox.com''])"
proof -
  let ?cfg = "\<lparr> client_path = ''/c/client.exe'', website_domain = str_of ''localhost'',
       version_year = 2010, client_type = PLAYER, patches = {WEBSITE},
       rbxsigtools_path = [], x64dbg_path = [] \<rparr>"
  let ?st = "[''/c/client.exe'' \<mapsto> File ''www.roblox.com'']"
  have a: "\<not> exists ?st (client_path ?cfg) \<or> length (website_domain ?cfg) \<noteq> 10"
    by (simp add: str_of_def)
  have b: "\<not> validate sample_platform ?cfg PUBLIC_KEY ?st"
    by (simp add: publickey_validate_def)
  from apply_after_failed_validation [of sample_platform ?cfg PUBLIC_KEY ?st] a b
  show ?thesis by blast
qed


section \<open>Properties of the public-key replacement\<close>


lemma py_in_Cons: "py_in m xs \<Longrightarrow> py_in m (x # xs)"
  by simp









text \<open>
  Each pass is a replace over the whole buffer, so a later pass can rewrite what an
  earlier one wrote: with the located keys \<open>BGIAAa\<close>, \<open>BGIAAab\<close>, \<open>BGIAAa\<close> and the new key
  \<open>BGIAAab\<close>, no key of the result is the new key.
\<close>

lemma public_key_passes_example:
  "key_findall ''BGIAAa BGIAAab BGIAAa'' = [''BGIAAa'', ''BGIAAab'', ''BGIAAa''] \<and>
   replace_keys ''BGIAAab'' ''BGIAAa BGIAAab BGIAAa'' (key_findall ''BGIAAa BGIAAab BGIAAa'')
     = ''BGIAAabb BGIAAabbb BGIAAabb''"
proof -
  have kc: "key_char CHR ''a''" "key_char CHR ''b''" "\<not> key_char CHR '' ''"
    by code_simp+
  have m: "key_match_at ''BGIAAa BGIAAab BGIAAa'' = Some ''BGIAAa''"
    "key_match_at '' BGIAAab BGIAAa'' = None"
    "key_match_at ''BGIAAab BGIAAa'' = Some ''BGIAAab''"
    "key_match_at '' BGIAAa'' = None"
    "key_match_at ''BGIAAa'' = Some ''BGIAAa''"
    by (simp_all add: key_match_at_def kc)
  have f: "key_findall ''BGIAAa BGIAAab BGIAAa'' = [''BGIAAa'', ''BGIAAab'', ''BGIAAa'']"
    by (simp add: m)
  show ?thesis unfolding f by (simp add: py_replace_def)
qed

section \<open>Properties of the orchestration\<close>

lemma apply_loop_step:
  "apply_loop env cfg (k # ks) st c =
     (let st1 = (if validate env cfg k st then snd (apply_patch env cfg k st) else st);
          c1 = (if status_at env cfg k st = AppliedSuccessfully then c + 1 else c);
          r = apply_loop env cfg ks st1 c1
      in ((k, status_at env cfg k st) # fst r, fst (snd r), snd (snd r)))"
  by (auto simp: status_at_def Let_def split: prod.splits bool.splits)

lemma apply_loop_kinds: "map fst (fst (apply_loop env cfg ks st c)) = ks"
proof (induction ks arbitrary: st c)
  case Nil
  then show ?case by simp
next
  case (Cons k ks)
  show ?case unfolding apply_loop_step by (simp add: Let_def Cons.IH)
qed

lemma apply_loop_count:
  "fst (snd (apply_loop env cfg ks st c)) =
     c + length (filter (\<lambda>r. snd r = AppliedSuccessfully) (fst (apply_loop env cfg ks st c)))"
proof (induction ks arbitrary: st c)
  case Nil
  then show ?case by simp
next
  case (Cons k ks)
  show ?case unfolding apply_loop_step by (simp add: Let_def Cons.IH)
qed

lemma apply_loop_append:
  "apply_loop env cfg (xs @ ys) st c =
     (let r1 = apply_loop env cfg xs st c;
          r2 = apply_loop env cfg ys (snd (snd r1)) (fst (snd r1))
      in (fst r1 @ fst r2, fst (snd r2), snd (snd r2)))"
proof (induction xs arbitrary: st c)
  case Nil
  then show ?case by simp
next
  case (Cons k xs)
  show ?case unfolding append_Cons apply_loop_step by (simp add: Let_def Cons.IH)
qed

lemma apply_loop_nth:
  "fst (apply_loop env cfg (xs @ k # ys) st c) ! length xs =
     (k, status_at env cfg k (snd (snd (apply_loop env cfg xs st c))))"
proof -
  have "length (fst (apply_loop env cfg xs st c)) = length xs"
    using apply_loop_kinds[of env cfg xs st c] by (metis length_map)
  then show ?thesis
    unfolding apply_loop_append apply_loop_step by (simp add: Let_def nth_append)
qed

lemma create_patchers_distinct: "distinct (create_patchers ps)"
  by (simp add: create_patchers_def)

lemma create_patchers_set: "set (create_patchers ps) = ps"
proof -
  have "k \<in> set [WEBSITE, PUBLIC_KEY, BLOCKING, INVALID_REQUEST, TRUST_CHECK, RATNET_KEY, HTML_SERVICE]" for k
    by (cases k) simp_all
  then have "set [WEBSITE, PUBLIC_KEY, BLOCKING, INVALID_REQUEST, TRUST_CHECK, RATNET_KEY, HTML_SERVICE] = UNIV"
    by blast
  then show ?thesis unfolding create_patchers_def set_filter by simp
qed

lemma create_patchers_length: "length (create_patchers ps) = card ps"
  using distinct_card[OF create_patchers_distinct, of ps] by (simp add: create_patchers_set)

text \<open>
  C6: a run over the selected patch kinds reports exactly one status per kind, in the
  order in which the patchers are created, so \<open>n\<close> statuses for \<open>n\<close> selected kinds. The
  status of a kind is decided by its own validation and application in the state left
  by the kinds before it, whatever their statuses were: a kind that fails validation is
  reported as such and skipped, and the loop goes on. The final summary is the number
  of kinds applied successfully out of the total number of kinds.
\<close>

theorem orchestration_outcomes:
  "(case apply_patches_thread env cfg st of
      (out, (success_count, total_patches), st') \<Rightarrow>
        map fst out = create_patchers (patches cfg) \<and>
        length out = card (patches cfg) \<and>
        total_patches = card (patches cfg) \<and>
        success_count = length (filter (\<lambda>r. snd r = AppliedSuccessfully) out) \<and>
        success_count \<le> total_patches \<and>
        (\<forall>xs k ys. create_patchers (patches cfg) = xs @ k # ys \<longrightarrow>
           out ! length xs =
             (k, status_at env cfg k (snd (snd (apply_loop env cfg xs st 0))))))"
proof -
  let ?ks = "create_patchers (patches cfg)"
  let ?r = "apply_loop env cfg ?ks st 0"
  have run: "apply_patches_thread env cfg st = (fst ?r, (fst (snd ?r), length ?ks), snd (snd ?r))"
    by (simp add: apply_patches_thread_def Let_def split: prod.splits)
  have kinds: "map fst (fst ?r) = ?ks" by (rule apply_loop_kinds)
  then have len: "length (fst ?r) = length ?ks" by (metis length_map)
  have cnt: "fst (snd ?r) = length (filter (\<lambda>r. snd r = AppliedSuccessfully) (fst ?r))"
    using apply_loop_count[of env cfg ?ks st 0] by simp
  have le: "fst (snd ?r) \<le> length ?ks"
    unfolding cnt using length_filter_le[of _ "fst ?r"] len by simp
  have nth: "fst ?r ! length xs = (k, status_at env cfg k (snd (snd (apply_loop env cfg xs st 0))))"
    if "?ks = xs @ k # ys" for xs k ys
    unfolding that by (rule apply_loop_nth)
  have c2: "length (fst ?r) = card (patches cfg)"
    using len by (simp add: create_patchers_length)
  have c3: "length ?ks = card (patches cfg)" by (rule create_patchers_length)
  have c6: "\<forall>xs k ys. ?ks = xs @ k # ys \<longrightarrow>
      fst ?r ! length xs = (k, status_at env cfg k (snd (snd (apply_loop env cfg xs st 0))))"
    using nth by blast
  show ?thesis
    unfolding run prod.case using kinds c2 c3 cnt le c6 by blast
qed

theorem orchestration_outcomes_witness:
  "apply_patches_thread sample_platform
     \<lparr> client_path = ''/c/client.exe'', website_domain = [], version_year = 2008,
       client_type = PLAYER, patches = {INVALID_REQUEST, RATNET_KEY, HTML_SERVICE},
       rbxsigtools_path = [], x64dbg_path = ''/x.exe'' \<rparr>
     [''/c/client.exe'' \<mapsto> File ''abc'', ''/x.exe'' \<mapsto> File []]
   = ([(INVALID_REQUEST, AppliedSuccessfully), (RATNET_KEY, ValidationFailed),
       (HTML_SERVICE, AppliedSuccessfully)],
      (2, 3),
      [''/c/client.exe'' \<mapsto> File ''abc'', ''/x.exe'' \<mapsto> File [],
       ''/c/client.exe.backup'' \<mapsto> File ''abc'']) \<and>
   card {INVALID_REQUEST, RATNET_KEY, HTML_SERVICE} = 3 \<and>
   status_at sample_platform
     \<lparr> client_path = ''/c/client.exe'', website_domain = [], version_year = 2008,
       client_type = PLAYER, patches = {INVALID_REQUEST, RATNET_KEY, HTML_SERVICE},
       rbxsigtools_path = [], x64dbg_path = ''/x.exe'' \<rparr>
     RATNET_KEY
     (snd (snd (apply_loop sample_platform
        \<lparr> client_path = ''/c/client.exe'', website_domain = [], version_year = 2008,
          client_type = PLAYER, patches = {INVALID_REQUEST, RATNET_KEY, HTML_SERVICE},
          rbxsigtools_path = [], x64dbg_path = ''/x.exe'' \<rparr>
        [INVALID_REQUEST]
        [''/c/client.exe'' \<mapsto> File ''abc'', ''/x.exe'' \<mapsto> File []] 0)))
   = ValidationFailed"
proof -
  let ?cfg = "\<lparr> client_path = ''/c/client.exe'', website_domain = [], version_year = 2008,
       client_type = PLAYER, patches = {INVALID_REQUEST, RATNET_KEY, HTML_SERVICE},
       rbxsigtools_path = [], x64dbg_path = ''/x.exe'' \<rparr>"
  let ?st = "[''/c/client.exe'' \<mapsto> File ''abc'', ''/x.exe'' \<mapsto> File []]"
  let ?st1 = "?st(''/c/client.exe.backup'' \<mapsto> File ''abc'')"
  have ks: "create_patchers (patches ?cfg) = [INVALID_REQUEST] @ RATNET_KEY # [HTML_SERVICE]"
    by (simp add: create_patchers_def)
  have a1: "invalid_request_apply ?cfg ?st = (True, ?st1)"
    by (simp add: invalid_request_apply_def invalid_request_validate_def backup_client_def
        backup_path_of_def copy2_def exists_def Let_def)
  have v1: "invalid_request_validate ?cfg ?st"
    by (simp add: invalid_request_validate_def exists_def)
  have v2: "\<not> ratnet_key_validate ?cfg ?st1"
    by (simp add: ratnet_key_validate_def)
  have v3: "html_service_validate ?cfg ?st1"
    by (simp add: html_service_validate_def exists_def)
  have a3: "html_service_apply ?cfg ?st1 = (True, ?st1)"
    by (simp add: html_service_apply_def html_service_validate_def backup_client_def
        backup_path_of_def exists_def Let_def)
  have run: "apply_patches_thread sample_platform ?cfg ?st =
      ([(INVALID_REQUEST, AppliedSuccessfully), (RATNET_KEY, ValidationFailed),
        (HTML_SERVICE, AppliedSuccessfully)], (2, 3), ?st1)"
    using ks a1 v1 v2 v3 a3 by (simp add: apply_patches_thread_def Let_def)
  note T = orchestration_outcomes [where env = sample_platform and cfg = ?cfg and st = ?st,
      unfolded run prod.case]
  from T have c: "card (patches ?cfg) = 3" by simp
  from T have "\<forall>xs k ys. create_patchers (patches ?cfg) = xs @ k # ys \<longrightarrow>
      [(INVALID_REQUEST, AppliedSuccessfully), (RATNET_KEY, ValidationFailed),
       (HTML_SERVICE, AppliedSuccessfully)] ! length xs =
      (k, status_at sample_platform ?cfg k (snd (snd (apply_loop sample_platform ?cfg xs ?st 0))))"
    by blast
  with ks have "[(INVALID_REQUEST, AppliedSuccessfully), (RATNET_KEY, ValidationFailed),
       (HTML_SERVICE, AppliedSuccessfully)] ! length [INVALID_REQUEST] =
      (RATNET_KEY, status_at sample_platform ?cfg RATNET_KEY
         (snd (snd (apply_loop sample_platform ?cfg [INVALID_REQUEST] ?st 0))))"
    by blast
  then have s: "status_at sample_platform ?cfg RATNET_KEY
      (snd (snd (apply_loop sample_platform ?cfg [INVALID_REQUEST] ?st 0))) = ValidationFailed"
    by simp
  from run c s show ?thesis by simp
qed

section \<open>Properties of the selection by year\<close>

lemma sort_newest_first_mset: "mset (sort_newest_first vs) = mset vs"
  by (simp add: sort_newest_first_def)

lemma sort_newest_first_sorted:
  "sorted_wrt (\<lambda>a b. timestamp b \<le> timestamp a) (sort_newest_first vs)"
proof -
  have "sorted (map timestamp (sort_key timestamp (rev vs)))" by (rule sorted_sort_key)
  then have "sorted_wrt (\<lambda>a b. timestamp a \<le> timestamp b) (sort_key timestamp (rev vs))"
    by (simp add: sorted_wrt_map)
  then show ?thesis by (simp add: sort_newest_first_def sorted_wrt_rev)
qed

lemma sorted_wrt_take: "sorted_wrt P xs \<Longrightarrow> sorted_wrt P (take n xs)"
  by (metis append_take_drop_id sorted_wrt_append)

lemma sort_newest_first_set: "set (sort_newest_first vs) = set vs"
  by (simp add: sort_newest_first_def)

lemma sort_newest_first_length: "length (sort_newest_first vs) = length vs"
  by (simp add: sort_newest_first_def)

lemma download_by_year_selected:
  "download_by_year dl vs y cts m = download_versions dl y (selected_versions vs y m) cts []"
  by (simp add: download_by_year_def selected_versions_def slice_to_def sort_newest_first_def)

text \<open>
  C9: for a count \<open>m \<ge> 0\<close>, the selection by year is the first \<open>m\<close> records of the list
  that holds exactly the records of the given year (with their multiplicities), ordered
  by timestamp descending in the lexicographic order of strings. Every selected record
  has the given year, and \<open>download_by_year\<close> downloads exactly the selected records.
  When no record has the given year, the selection is empty and \<open>download_by_year\<close>
  returns the empty dictionary, an ordinary result.
\<close>

theorem by_year_selection:
  assumes "0 \<le> m"
  shows "selected_versions vs y m = take (nat m) (sort_newest_first (year_versions vs y)) \<and>
         mset (sort_newest_first (year_versions vs y)) = mset (filter (\<lambda>v. year v = y) vs) \<and>
         sorted_wrt (\<lambda>a b. timestamp b \<le> timestamp a) (sort_newest_first (year_versions vs y)) \<and>
         sorted_wrt (\<lambda>a b. timestamp b \<le> timestamp a) (selected_versions vs y m) \<and>
         (\<forall>v \<in> set (selected_versions vs y m). v \<in> set vs \<and> year v = y) \<and>
         length (selected_versions vs y m) = min (nat m) (length (filter (\<lambda>v. year v = y) vs)) \<and>
         download_by_year dl vs y cts m =
           download_versions dl y (selected_versions vs y m) cts [] \<and>
         (filter (\<lambda>v. year v = y) vs = [] \<longrightarrow>
            selected_versions vs y m = [] \<and> download_by_year dl vs y cts m = [])"
proof -
  let ?full = "sort_newest_first (year_versions vs y)"
  have sel: "selected_versions vs y m = take (nat m) ?full"
    using assms by (simp add: selected_versions_def slice_to_def)
  have ms: "mset ?full = mset (filter (\<lambda>v. year v = y) vs)"
    by (simp add: sort_newest_first_mset year_versions_def)
  have so: "sorted_wrt (\<lambda>a b. timestamp b \<le> timestamp a) ?full"
    by (rule sort_newest_first_sorted)
  have so': "sorted_wrt (\<lambda>a b. timestamp b \<le> timestamp a) (selected_versions vs y m)"
    unfolding sel using so by (rule sorted_wrt_take)
  have mem: "\<forall>v \<in> set (selected_versions vs y m). v \<in> set vs \<and> year v = y"
  proof
    fix v assume "v \<in> set (selected_versions vs y m)"
    then have "v \<in> set ?full" unfolding sel by (rule in_set_takeD)
    then show "v \<in> set vs \<and> year v = y"
      by (simp add: sort_newest_first_set year_versions_def)
  qed
  have len: "length (selected_versions vs y m) = min (nat m) (length (filter (\<lambda>v. year v = y) vs))"
    unfolding sel by (simp add: sort_newest_first_length year_versions_def)
  have emp: "selected_versions vs y m = [] \<and> download_by_year dl vs y cts m = []"
    if "filter (\<lambda>v. year v = y) vs = []"
    using that by (simp add: download_by_year_def sel year_versions_def sort_newest_first_def)
  from sel ms so so' mem len download_by_year_selected emp show ?thesis by blast
qed

theorem by_year_selection_witness:
  "selected_versions
     [\<lparr> hash = str_of ''h1'', timestamp = str_of ''2015-01-01 00:00:00'', version_id = None, year = 2015 \<rparr>,
      \<lparr> hash = str_of ''h2'', timestamp = str_of ''2015-06-01 00:00:00'', version_id = None, year = 2015 \<rparr>,
      \<lparr> hash = str_of ''h3'', timestamp = str_of ''2014-01-01 00:00:00'', version_id = None, year = 2014 \<rparr>]
     2015 1
   = [\<lparr> hash = str_of ''h2'', timestamp = str_of ''2015-06-01 00:00:00'', version_id = None, year = 2015 \<rparr>]"
proof -
  let ?h1 = "\<lparr> hash = str_of ''h1'', timestamp = str_of ''2015-01-01 00:00:00'', version_id = None, year = 2015 \<rparr>"
  let ?h2 = "\<lparr> hash = str_of ''h2'', timestamp = str_of ''2015-06-01 00:00:00'', version_id = None, year = 2015 \<rparr>"
  let ?h3 = "\<lparr> hash = str_of ''h3'', timestamp = str_of ''2014-01-01 00:00:00'', version_id = None, year = 2014 \<rparr>"
  have le: "str_of ''2015-01-01 00:00:00'' \<le> str_of ''2015-06-01 00:00:00''"
    by (simp add: str_of_def)
  have nle: "\<not> str_of ''2015-06-01 00:00:00'' \<le> str_of ''2015-01-01 00:00:00''"
    by (simp add: str_of_def)
  have yv: "year_versions [?h1, ?h2, ?h3] 2015 = [?h1, ?h2]"
    by (simp add: year_versions_def)
  have so: "sort_newest_first [?h1, ?h2] = [?h2, ?h1]"
    by (simp add: sort_newest_first_def le nle)
  have "(0::int) \<le> 1" by simp
  from by_year_selection [OF this, of "[?h1, ?h2, ?h3]" 2015]
  have "selected_versions [?h1, ?h2, ?h3] 2015 1 =
      take (nat 1) (sort_newest_first (year_versions [?h1, ?h2, ?h3] 2015))"
    by blast
  then show ?thesis by (simp add: yv so)
qed

section \<open>Properties of the selection by range\<close>

text \<open>
  C8: the \<open>--range\<close> command is symmetric in its two years: bounds given in the wrong
  order are swapped, so the years from the smaller to the larger bound are processed
  either way.
\<close>

theorem range_bounds_normalised:
  "main_range dl vs a b cts m = main_range dl vs b a cts m \<and>
   main_range dl vs a b cts m = download_range dl vs (min a b) (max a b) cts m"
  by (simp add: main_range_def min_def max_def)

theorem range_bounds_normalised_witness:
  "main_range (\<lambda>h c. Some (str_of ''dir/'' @ h))
     [\<lparr> hash = str_of ''h1'', timestamp = str_of ''2011'', version_id = None, year = 2011 \<rparr>]
     2012 2010 [str_of ''WindowsPlayer''] 1
   = main_range (\<lambda>h c. Some (str_of ''dir/'' @ h))
     [\<lparr> hash = str_of ''h1'', timestamp = str_of ''2011'', version_id = None, year = 2011 \<rparr>]
     2010 2012 [str_of ''WindowsPlayer''] 1"
  using range_bounds_normalised by blast

text \<open>
  \<open>download_range\<close> called directly with \<open>start_year > end_year\<close> visits no year; the
  normalisation is done by its caller.
\<close>

lemma download_range_reversed:
  "b < a \<Longrightarrow> download_range dl vs a b cts m = []"
  by (simp add: download_range_def)

section \<open>Properties of the deploy-history parsers\<close>

lemma parse_lines_bad_line:
  assumes "bad \<in> set lines" and "2 \<le> length (split_char comma bad)"
    and "strptime_year lib (strip (split_char comma bad ! 1)) = None"
  shows "parse_lines lib lines = None"
  using assms(1)
proof (induction lines)
  case Nil
  then show ?case by simp
next
  case (Cons l ls)
  show ?case
  proof (cases "l = bad")
    case True
    with assms(2,3) show ?thesis by (simp add: Let_def)
  next
    case False
    with Cons have "parse_lines lib ls = None" by simp
    then show ?thesis by (simp add: Let_def split: option.splits)
  qed
qed

text \<open>
  C7 does not hold for the parser of deploy_downloader.py: one line with two fields
  whose timestamp \<open>strptime\<close> rejects makes the function return the empty list, whatever
  the other lines are.
\<close>

theorem deploy_history_bad_line_aborts:
  assumes "bad \<in> set (split_char newline (strip text))"
    and "2 \<le> length (split_char comma bad)"
    and "strptime_year lib (strip (split_char comma bad ! 1)) = None"
  shows "download_deploy_history lib (Some text) = []"
  using parse_lines_bad_line[OF assms] by (simp add: download_deploy_history_def)

theorem deploy_history_bad_line_aborts_witness:
  "download_deploy_history sample_lib
     (Some (str_of ''version-aa,2015-01-01 00:00:00'' @ [newline] @ str_of ''version-bb,yesterday'' @
            [newline] @ str_of ''version-cc,2015-06-01 00:00:00'')) = [] \<and>
   download_deploy_history sample_lib
     (Some (str_of ''version-aa,2015-01-01 00:00:00'' @ [newline] @
            str_of ''version-cc,2015-06-01 00:00:00'')) =
     [\<lparr> hash = str_of ''version-aa'', timestamp = str_of ''2015-01-01 00:00:00'',
        version_id = Some (str_of ''aa''), year = 2015 \<rparr>,
      \<lparr> hash = str_of ''version-cc'', timestamp = str_of ''2015-06-01 00:00:00'',
        version_id = Some (str_of ''cc''), year = 2015 \<rparr>] \<and>
   download_deploy_history_gui sample_lib
     (Some (str_of ''version-aa,2015-01-01 00:00:00'' @ [newline] @ str_of ''version-bb,yesterday'' @
            [newline] @ str_of ''version-cc,2015-06-01 00:00:00'')) =
     [\<lparr> hash = str_of ''version-aa'', timestamp = str_of ''2015-01-01 00:00:00'',
        version_id = Some (str_of ''aa''), year = 2015 \<rparr>,
      \<lparr> hash = str_of ''version-cc'', timestamp = str_of ''2015-06-01 00:00:00'',
        version_id = Some (str_of ''cc''), year = 2015 \<rparr>]"
proof -
  let ?text = "str_of ''version-aa,2015-01-01 00:00:00'' @ [newline] @ str_of ''version-bb,yesterday'' @
            [newline] @ str_of ''version-cc,2015-06-01 00:00:00''"
  let ?bad = "str_of ''version-bb,yesterday''"
  have a: "?bad \<in> set (split_char newline (strip ?text))"
    by (simp add: download_deploy_history_def download_deploy_history_gui_def parse_line_gui_def
        str_of_def strip_def isspace_def newline_def comma_def sample_lib_def
        sample_strptime_year_def ascii_digit_def is_hex_def Let_def)
  have b: "2 \<le> length (split_char comma ?bad)"
    by (simp add: download_deploy_history_def download_deploy_history_gui_def parse_line_gui_def
        str_of_def strip_def isspace_def newline_def comma_def sample_lib_def
        sample_strptime_year_def ascii_digit_def is_hex_def Let_def)
  have c: "strptime_year sample_lib (strip (split_char comma ?bad ! 1)) = None"
    by (simp add: download_deploy_history_def download_deploy_history_gui_def parse_line_gui_def
        str_of_def strip_def isspace_def newline_def comma_def sample_lib_def
        sample_strptime_year_def ascii_digit_def is_hex_def Let_def)
  have d: "download_deploy_history sample_lib
     (Some (str_of ''version-aa,2015-01-01 00:00:00'' @ [newline] @
            str_of ''version-cc,2015-06-01 00:00:00'')) =
     [\<lparr> hash = str_of ''version-aa'', timestamp = str_of ''2015-01-01 00:00:00'',
        version_id = Some (str_of ''aa''), year = 2015 \<rparr>,
      \<lparr> hash = str_of ''version-cc'', timestamp = str_of ''2015-06-01 00:00:00'',
        version_id = Some (str_of ''cc''), year = 2015 \<rparr>]"
   
    by (simp add: download_deploy_history_def download_deploy_history_gui_def parse_line_gui_def
        str_of_def strip_def isspace_def newline_def comma_def sample_lib_def
        sample_strptime_year_def ascii_digit_def is_hex_def Let_def)
  have e: "download_deploy_history_gui sample_lib (Some ?text) =
     [\<lparr> hash = str_of ''version-aa'', timestamp = str_of ''2015-01-01 00:00:00'',
        version_id = Some (str_of ''aa''), year = 2015 \<rparr>,
      \<lparr> hash = str_of ''version-cc'', timestamp = str_of ''2015-06-01 00:00:00'',
        version_id = Some (str_of ''cc''), year = 2015 \<rparr>]"
   
    by (simp add: download_deploy_history_def download_deploy_history_gui_def parse_line_gui_def
        str_of_def strip_def isspace_def newline_def comma_def sample_lib_def
        sample_strptime_year_def ascii_digit_def is_hex_def Let_def)
  from deploy_history_bad_line_aborts [OF a b c] d e show ?thesis by blast
qed

text \<open>
  The parser of client_downloader.py does isolate bad lines: removing the lines that
  yield no record does not change the result.
\<close>

lemma parse_lines_gui_append:
  "parse_lines_gui lib (xs @ ys) = parse_lines_gui lib xs @ parse_lines_gui lib ys"
  by (induction xs) (simp_all split: option.splits)

lemma parse_lines_gui_isolated:
  "parse_line_gui lib bad = None \<Longrightarrow>
   parse_lines_gui lib (xs @ bad # ys) = parse_lines_gui lib (xs @ ys)"
  by (simp add: parse_lines_gui_append)

lemma parse_lines_gui_filter:
  "parse_lines_gui lib (filter (\<lambda>l. parse_line_gui lib l \<noteq> None) ls) = parse_lines_gui lib ls"
  by (induction ls) (auto split: option.splits)

end
